theory Spec2Isabelle
  imports Main "HOL-Library.Word"
begin

unbundle bit_operations_syntax

section \<open>HPKE (draft-irtf-cfrg-hpke-06): sender and receiver orchestration\<close>

text \<open>
  A shallow embedding of \<^verbatim>\<open>hpke/hpke.go\<close>. Go byte slices are lists of 8-bit words
  (a nil slice and an empty slice both have length 0 and are the empty list), the
  16-bit algorithm identifiers and the 8-bit mode identifier are words, structs are
  records, and Go's struct embedding (\<^verbatim>\<open>Sender\<close> and \<^verbatim>\<open>Receiver\<close> embed \<^verbatim>\<open>state\<close>)
  is record extension. A method with a pointer receiver that assigns to its receiver
  returns the updated record together with its results. A Go result list ending in
  \<^verbatim>\<open>error\<close> whose other results are nil when the error is set is a sum with the
  error on the left.
\<close>

subsection \<open>Data\<close>

type_synonym byte = "8 word"
type_synonym bytes = "byte list"

text \<open>The error kinds of the error-handling design; Go's \<^verbatim>\<open>errors.New("invalid suite")\<close>
  is \<open>InvalidSuite\<close>, an error returned by the KEM is passed on as it is.\<close>

datatype error =
    InvalidSuite
  | InvalidPSKInputs
  | KemFailure
  | KdfOutputTooLong
  | AuthFailure
  | MessageLimitReached

text \<open>\<^verbatim>\<open>kem.PublicKey\<close> and \<^verbatim>\<open>kem.PrivateKey\<close> are interface values of package
  \<^verbatim>\<open>kem\<close>: \<open>None\<close> is the nil interface, \<open>Some b\<close> a key, identified by its encoding.\<close>

type_synonym PublicKey = "bytes option"
type_synonym PrivateKey = "bytes option"

text \<open>\<^verbatim>\<open>type modeID = uint8\<close> and its four constants.\<close>

type_synonym modeID = "8 word"

definition modeBase :: modeID where "modeBase = 0"
definition modePSK :: modeID where "modePSK = 1"
definition modeAuth :: modeID where "modeAuth = 2"
definition modeAuthPSK :: modeID where "modeAuthPSK = 3"

record Suite =
  KemID :: "16 word"
  KdfID :: "16 word"
  AeadID :: "16 word"

record state =
  Suite :: Suite
  modeID :: modeID
  skS :: PrivateKey
  pkS :: PublicKey
  psk :: bytes
  pskID :: bytes
  info :: bytes

record Sender = state +
  pkR :: PublicKey

record Receiver = state +
  skR :: PrivateKey
  enc :: bytes

subsection \<open>Collaborators\<close>

text \<open>
  \<^verbatim>\<open>kem.AuthScheme\<close> (package \<^verbatim>\<open>kem\<close>). Encapsulation draws fresh randomness; the
  bytes drawn are the first argument of \<open>Encapsulate\<close> and \<open>AuthEncapsulate\<close>, as in
  the deterministic variants that the test's \<^verbatim>\<open>seededKem\<close> calls.
\<close>

record AuthScheme =
  Encapsulate :: "bytes \<Rightarrow> PublicKey \<Rightarrow> error + (bytes \<times> bytes)"
  AuthEncapsulate :: "bytes \<Rightarrow> PublicKey \<Rightarrow> PrivateKey \<Rightarrow> error + (bytes \<times> bytes)"
  Decapsulate :: "PrivateKey \<Rightarrow> bytes \<Rightarrow> error + bytes"
  AuthDecapsulate :: "PrivateKey \<Rightarrow> bytes \<Rightarrow> PublicKey \<Rightarrow> error + bytes"

text \<open>The KDF and AEAD collaborators of the external-interfaces section:
  \<open>Extract(salt, ikm)\<close>, \<open>Expand(prk, info, L)\<close>; an AEAD instance is identified by
  its key, \<open>aeadOpen\<close> is \<open>None\<close> on a tag mismatch.\<close>

record KDF =
  Nh :: nat
  Extract :: "bytes \<Rightarrow> bytes \<Rightarrow> bytes"
  Expand :: "bytes \<Rightarrow> bytes \<Rightarrow> nat \<Rightarrow> bytes"

record AEAD =
  Nk :: nat
  Nn :: nat
  Nt :: nat
  aeadSeal :: "bytes \<Rightarrow> bytes \<Rightarrow> bytes \<Rightarrow> bytes \<Rightarrow> bytes"
  aeadOpen :: "bytes \<Rightarrow> bytes \<Rightarrow> bytes \<Rightarrow> bytes \<Rightarrow> bytes option"

text \<open>The suite registry (\<^verbatim>\<open>KemID.Scheme()\<close>, the validity of each identifier and the
  primitive handles) is not part of \<^verbatim>\<open>hpke.go\<close>; it is a parameter of the model.\<close>

record registry =
  isValidKem :: "16 word \<Rightarrow> bool"
  isValidKdf :: "16 word \<Rightarrow> bool"
  isValidAead :: "16 word \<Rightarrow> bool"
  Scheme :: "16 word \<Rightarrow> AuthScheme"
  kdfOf :: "16 word \<Rightarrow> KDF"
  aeadOf :: "16 word \<Rightarrow> AEAD"

text \<open>Modelled from the spec: \<^verbatim>\<open>Suite.isValid\<close>, which \<^verbatim>\<open>hpke.go\<close> calls and does not
  define. A suite is valid iff all three identifiers are known to the registry.\<close>

definition isValid :: "registry \<Rightarrow> Suite \<Rightarrow> bool" where
  "isValid R su = (isValidKem R (KemID su) \<and> isValidKdf R (KdfID su) \<and> isValidAead R (AeadID su))"

text \<open>The context that the key schedule returns (\<^verbatim>\<open>encdecCtx\<close>; the test reads its
  \<^verbatim>\<open>baseNonce\<close> and \<^verbatim>\<open>exporterSecret\<close>), and its two direction-pinned wrappers
  \<^verbatim>\<open>sealCtx\<close> and \<^verbatim>\<open>openCtx\<close>.\<close>

record encdecCtx =
  suite :: Suite
  key :: bytes
  baseNonce :: bytes
  exporterSecret :: bytes
  seq :: nat

datatype sealCtx = sealCtx (sealer_ctx: encdecCtx)
datatype openCtx = openCtx (opener_ctx: encdecCtx)

text \<open>\<^verbatim>\<open>state.keySchedule(ss, info, psk, pskID)\<close> is called by \<^verbatim>\<open>allSetup\<close> and defined
  elsewhere: the orchestration takes it as a parameter of this type.\<close>

type_synonym keySchedule = "state \<Rightarrow> bytes \<Rightarrow> bytes \<Rightarrow> bytes \<Rightarrow> bytes \<Rightarrow> error + encdecCtx"

subsection \<open>Sender\<close>

definition NewSender :: "registry \<Rightarrow> Suite \<Rightarrow> PublicKey \<Rightarrow> bytes \<Rightarrow> error + Sender" where
  "NewSender R su pk nfo =
     (if \<not> isValid R su then Inl InvalidSuite
      else Inr \<lparr>Suite = su, modeID = 0, skS = None, pkS = None, psk = [], pskID = [],
                info = nfo, pkR = pk\<rparr>)"

definition buildBase :: "Sender \<Rightarrow> Sender" where
  "buildBase s = s\<lparr>modeID := modeBase\<rparr>"

definition buildAuth :: "PrivateKey \<Rightarrow> Sender \<Rightarrow> Sender" where
  "buildAuth sk s = s\<lparr>modeID := modeAuth, skS := sk\<rparr>"

definition buildPSK :: "bytes \<Rightarrow> bytes \<Rightarrow> Sender \<Rightarrow> Sender" where
  "buildPSK p pid s = s\<lparr>modeID := modePSK, psk := p, pskID := pid\<rparr>"

definition buildAuthPSK :: "PrivateKey \<Rightarrow> bytes \<Rightarrow> bytes \<Rightarrow> Sender \<Rightarrow> Sender" where
  "buildAuthPSK sk p pid s = s\<lparr>modeID := modeAuthPSK, skS := sk, psk := p, pskID := pid\<rparr>"

text \<open>\<^verbatim>\<open>func (s *Sender) allSetup(k kem.AuthScheme)\<close>. The switch has no default: for a
  mode outside the four constants \<^verbatim>\<open>enc\<close>, \<^verbatim>\<open>ss\<close> and \<^verbatim>\<open>err\<close> keep their zero values.\<close>

definition Sender_allSetup ::
  "keySchedule \<Rightarrow> Sender \<Rightarrow> AuthScheme \<Rightarrow> bytes \<Rightarrow> error + (bytes \<times> sealCtx)" where
  "Sender_allSetup ks s k rnd =
     (case (if modeID s = modeBase \<or> modeID s = modePSK then Encapsulate k rnd (pkR s)
            else if modeID s = modeAuth \<or> modeID s = modeAuthPSK
              then AuthEncapsulate k rnd (pkR s) (skS s)
            else Inr ([], [])) of
        Inl err \<Rightarrow> Inl err
      | Inr (e, ss) \<Rightarrow>
          (case ks (state.truncate s) ss (info s) (psk s) (pskID s) of
             Inl err \<Rightarrow> Inl err
           | Inr ctx \<Rightarrow> Inr (e, sealCtx ctx)))"

definition Sender_Setup ::
  "keySchedule \<Rightarrow> registry \<Rightarrow> bytes \<Rightarrow> Sender \<Rightarrow> Sender \<times> (error + (bytes \<times> sealCtx))" where
  "Sender_Setup ks R rnd s =
     (let s' = buildBase s in (s', Sender_allSetup ks s' (Scheme R (KemID (Suite s'))) rnd))"

definition Sender_SetupAuth ::
  "keySchedule \<Rightarrow> registry \<Rightarrow> bytes \<Rightarrow> PrivateKey \<Rightarrow> Sender
     \<Rightarrow> Sender \<times> (error + (bytes \<times> sealCtx))" where
  "Sender_SetupAuth ks R rnd sk s =
     (let s' = buildAuth sk s in (s', Sender_allSetup ks s' (Scheme R (KemID (Suite s'))) rnd))"

definition Sender_SetupPSK ::
  "keySchedule \<Rightarrow> registry \<Rightarrow> bytes \<Rightarrow> bytes \<Rightarrow> bytes \<Rightarrow> Sender
     \<Rightarrow> Sender \<times> (error + (bytes \<times> sealCtx))" where
  "Sender_SetupPSK ks R rnd p pid s =
     (let s' = buildPSK p pid s in (s', Sender_allSetup ks s' (Scheme R (KemID (Suite s'))) rnd))"

definition Sender_SetupAuthPSK ::
  "keySchedule \<Rightarrow> registry \<Rightarrow> bytes \<Rightarrow> PrivateKey \<Rightarrow> bytes \<Rightarrow> bytes \<Rightarrow> Sender
     \<Rightarrow> Sender \<times> (error + (bytes \<times> sealCtx))" where
  "Sender_SetupAuthPSK ks R rnd sk p pid s =
     (let s' = buildAuthPSK sk p pid s
      in (s', Sender_allSetup ks s' (Scheme R (KemID (Suite s'))) rnd))"

subsection \<open>Receiver\<close>

definition NewReceiver :: "registry \<Rightarrow> Suite \<Rightarrow> PrivateKey \<Rightarrow> bytes \<Rightarrow> error + Receiver" where
  "NewReceiver R su sk nfo =
     (if \<not> isValid R su then Inl InvalidSuite
      else Inr \<lparr>Suite = su, modeID = 0, skS = None, pkS = None, psk = [], pskID = [],
                info = nfo, skR = sk, enc = []\<rparr>)"

definition Receiver_allSetup :: "keySchedule \<Rightarrow> registry \<Rightarrow> Receiver \<Rightarrow> error + openCtx" where
  "Receiver_allSetup ks R r =
     (let k = Scheme R (KemID (Suite r)) in
      case (if modeID r = modeBase \<or> modeID r = modePSK then Decapsulate k (skR r) (enc r)
            else if modeID r = modeAuth \<or> modeID r = modeAuthPSK
              then AuthDecapsulate k (skR r) (enc r) (pkS r)
            else Inr []) of
        Inl err \<Rightarrow> Inl err
      | Inr ss \<Rightarrow>
          (case ks (state.truncate r) ss (info r) (psk r) (pskID r) of
             Inl err \<Rightarrow> Inl err
           | Inr ctx \<Rightarrow> Inr (openCtx ctx)))"

definition Receiver_Setup ::
  "keySchedule \<Rightarrow> registry \<Rightarrow> bytes \<Rightarrow> Receiver \<Rightarrow> Receiver \<times> (error + openCtx)" where
  "Receiver_Setup ks R e r =
     (let r' = r\<lparr>modeID := modeBase, enc := e\<rparr> in (r', Receiver_allSetup ks R r'))"

definition Receiver_SetupAuth ::
  "keySchedule \<Rightarrow> registry \<Rightarrow> bytes \<Rightarrow> PublicKey \<Rightarrow> Receiver
     \<Rightarrow> Receiver \<times> (error + openCtx)" where
  "Receiver_SetupAuth ks R e pk r =
     (let r' = r\<lparr>modeID := modeAuth, enc := e, pkS := pk\<rparr> in (r', Receiver_allSetup ks R r'))"

definition Receiver_SetupPSK ::
  "keySchedule \<Rightarrow> registry \<Rightarrow> bytes \<Rightarrow> bytes \<Rightarrow> bytes \<Rightarrow> Receiver
     \<Rightarrow> Receiver \<times> (error + openCtx)" where
  "Receiver_SetupPSK ks R e p pid r =
     (let r' = r\<lparr>modeID := modePSK, enc := e, psk := p, pskID := pid\<rparr>
      in (r', Receiver_allSetup ks R r'))"

definition Receiver_SetupAuthPSK ::
  "keySchedule \<Rightarrow> registry \<Rightarrow> bytes \<Rightarrow> bytes \<Rightarrow> bytes \<Rightarrow> PublicKey \<Rightarrow> Receiver
     \<Rightarrow> Receiver \<times> (error + openCtx)" where
  "Receiver_SetupAuthPSK ks R e p pid pk r =
     (let r' = r\<lparr>modeID := modeAuthPSK, enc := e, psk := p, pskID := pid, pkS := pk\<rparr>
      in (r', Receiver_allSetup ks R r'))"

subsection \<open>Labeled KDF\<close>

text \<open>The big-endian encoding of a number, left-padded to \<open>len\<close> bytes (the low
  \<open>len\<close> bytes when the number is larger).\<close>

definition big_endian :: "nat \<Rightarrow> nat \<Rightarrow> bytes" where
  "big_endian len n = map (\<lambda>i. of_nat (n div 256 ^ (len - 1 - i))) [0..<len]"

definition BE16 :: "16 word \<Rightarrow> bytes" where
  "BE16 x = big_endian 2 (unat x)"

definition bytes_of :: "string \<Rightarrow> bytes" where
  "bytes_of s = map (\<lambda>c. of_nat (of_char c)) s"

text \<open>\<^verbatim>\<open>const versionLabel = "HPKE-06"\<close>\<close>

definition versionLabel :: bytes where
  "versionLabel = bytes_of ''HPKE-06''"

text \<open>Modelled from the spec: the 10-byte HPKE suite identifier
  \<open>"HPKE" \<parallel> KemID(2) \<parallel> KdfID(2) \<parallel> AeadID(2)\<close>, computed outside \<^verbatim>\<open>hpke.go\<close>.\<close>

definition suiteID :: "Suite \<Rightarrow> bytes" where
  "suiteID su = bytes_of ''HPKE'' @ BE16 (KemID su) @ BE16 (KdfID su) @ BE16 (AeadID su)"

text \<open>Modelled from the spec: \<open>LabeledExtract\<close> and \<open>LabeledExpand\<close>, defined outside
  \<^verbatim>\<open>hpke.go\<close>. The length is a 16-bit value and the result is the byte string of the
  KDF, as in the one signature that the source declares for a caller of
  \<open>LabeledExpand\<close>: \<^verbatim>\<open>Export(expCtx []byte, len uint16) []byte\<close>.\<close>

definition labeledExtract :: "KDF \<Rightarrow> bytes \<Rightarrow> bytes \<Rightarrow> bytes \<Rightarrow> bytes \<Rightarrow> bytes" where
  "labeledExtract k sid salt label ikm = Extract k salt (versionLabel @ sid @ label @ ikm)"

definition labeledExpand :: "KDF \<Rightarrow> bytes \<Rightarrow> bytes \<Rightarrow> bytes \<Rightarrow> bytes \<Rightarrow> 16 word \<Rightarrow> bytes" where
  "labeledExpand k sid prk label nfo L =
     Expand k prk (versionLabel @ BE16 L @ sid @ label @ nfo) (unat L)"

subsection \<open>Key schedule\<close>

text \<open>Modelled from the spec: the check of the pre-shared key binding, made by the key
  schedule before any derivation. \<open>True\<close> means the inputs are consistent with the mode.\<close>

definition verifyPSKInputs :: "modeID \<Rightarrow> bytes \<Rightarrow> bytes \<Rightarrow> bool" where
  "verifyPSKInputs m p pid =
     (if (length p = 0) \<noteq> (length pid = 0) then False
      else if m = modeBase \<or> m = modeAuth then length p = 0 \<and> length pid = 0
      else if m = modePSK \<or> m = modeAuthPSK then length p \<noteq> 0 \<and> length pid \<noteq> 0
      else True)"

text \<open>Modelled from the spec: \<^verbatim>\<open>state.keySchedule\<close>, which \<^verbatim>\<open>allSetup\<close> calls and
  \<^verbatim>\<open>hpke.go\<close> does not define: the seven derivation steps of the key schedule, in
  their order, after the check of the PSK inputs. It reads the suite and the mode
  of the state it is called on.\<close>

definition keySchedule :: "registry \<Rightarrow> keySchedule" where
  "keySchedule R st ss nfo p pid =
     (if \<not> verifyPSKInputs (modeID st) p pid then Inl InvalidPSKInputs
      else
        let su = Suite st;
            k = kdfOf R (KdfID su);
            a = aeadOf R (AeadID su);
            sid = suiteID su;
            psk_id_hash = labeledExtract k sid [] (bytes_of ''psk_id_hash'') pid;
            info_hash = labeledExtract k sid [] (bytes_of ''info_hash'') nfo;
            key_schedule_context = modeID st # psk_id_hash @ info_hash;
            secret = labeledExtract k sid ss (bytes_of ''secret'') p
        in Inr \<lparr>suite = su,
                key = labeledExpand k sid secret (bytes_of ''key'') key_schedule_context
                        (of_nat (Nk a)),
                baseNonce = labeledExpand k sid secret (bytes_of ''base_nonce'')
                        key_schedule_context (of_nat (Nn a)),
                exporterSecret = labeledExpand k sid secret (bytes_of ''exp'')
                        key_schedule_context (of_nat (Nh k)),
                seq = 0\<rparr>)"

subsection \<open>AEAD context\<close>

text \<open>Modelled from the spec: \<open>compute_nonce\<close>, \<open>increment_seq\<close>, \<open>Seal\<close>, \<open>Open\<close> and
  \<open>Export\<close> of the context, defined outside \<^verbatim>\<open>hpke.go\<close>, which declares their
  signatures in the interfaces \<^verbatim>\<open>Sealer\<close>, \<^verbatim>\<open>Opener\<close> and \<^verbatim>\<open>Exporter\<close>.
  \<open>Seal\<close> and \<open>Open\<close> return Go's pair of the bytes and the error (\<open>None\<close> is nil).
  \<open>Seal\<close> runs the AEAD and then \<open>increment_seq\<close>; when the increment fails the
  caller still receives the ciphertext for the current \<open>seq\<close>, and the error is not
  swallowed. \<open>Open\<close> runs the AEAD, returns \<open>AuthFailure\<close> without advancing \<open>seq\<close>
  when it fails, and runs \<open>increment_seq\<close> when it succeeds.\<close>

definition compute_nonce :: "AEAD \<Rightarrow> encdecCtx \<Rightarrow> bytes" where
  "compute_nonce a c = map2 (XOR) (big_endian (Nn a) (seq c)) (baseNonce c)"

definition increment_seq :: "AEAD \<Rightarrow> encdecCtx \<Rightarrow> error + encdecCtx" where
  "increment_seq a c =
     (if seq c = 2 ^ (8 * Nn a) - 1 then Inl MessageLimitReached
      else Inr (c\<lparr>seq := seq c + 1\<rparr>))"

fun Seal :: "registry \<Rightarrow> sealCtx \<Rightarrow> bytes \<Rightarrow> bytes \<Rightarrow> (bytes \<times> error option) \<times> sealCtx" where
  "Seal R (sealCtx c) pt aad =
     (let a = aeadOf R (AeadID (suite c));
          ct = aeadSeal a (key c) (compute_nonce a c) pt aad
      in case increment_seq a c of
           Inl err \<Rightarrow> ((ct, Some err), sealCtx c)
         | Inr c' \<Rightarrow> ((ct, None), sealCtx c'))"

fun Open :: "registry \<Rightarrow> openCtx \<Rightarrow> bytes \<Rightarrow> bytes \<Rightarrow> (bytes \<times> error option) \<times> openCtx" where
  "Open R (openCtx c) ct aad =
     (let a = aeadOf R (AeadID (suite c))
      in case aeadOpen a (key c) (compute_nonce a c) ct aad of
           None \<Rightarrow> (([], Some AuthFailure), openCtx c)
         | Some pt \<Rightarrow>
             (case increment_seq a c of
                Inl err \<Rightarrow> ((pt, Some err), openCtx c)
              | Inr c' \<Rightarrow> ((pt, None), openCtx c')))"

text \<open>The number of values that \<open>seq\<close> can take in a context: \<open>2^(8\<cdot>Nn)\<close>.\<close>

definition message_limit :: "registry \<Rightarrow> encdecCtx \<Rightarrow> nat" where
  "message_limit R c = 2 ^ (8 * Nn (aeadOf R (AeadID (suite c))))"

definition Export :: "registry \<Rightarrow> encdecCtx \<Rightarrow> bytes \<Rightarrow> 16 word \<Rightarrow> bytes" where
  "Export R c expCtx L =
     labeledExpand (kdfOf R (KdfID (suite c))) (suiteID (suite c)) (exporterSecret c)
       (bytes_of ''sec'') expCtx L"

subsection \<open>Running a sender against a receiver\<close>

text \<open>The test's \<^verbatim>\<open>setup\<close> pairs each way of setting up the sender with the matching
  call on the receiver, by mode: the parameters of a mode are the sender's private
  key and its public key (the Auth modes) and the pre-shared key with its identifier
  (the PSK modes).\<close>

datatype mode_params =
    Base
  | PSK bytes bytes
  | Auth PrivateKey PublicKey
  | AuthPSK PrivateKey PublicKey bytes bytes

fun setup_sender ::
  "keySchedule \<Rightarrow> registry \<Rightarrow> bytes \<Rightarrow> mode_params \<Rightarrow> Sender
     \<Rightarrow> Sender \<times> (error + (bytes \<times> sealCtx))" where
  "setup_sender ks R rnd Base s = Sender_Setup ks R rnd s"
| "setup_sender ks R rnd (PSK p pid) s = Sender_SetupPSK ks R rnd p pid s"
| "setup_sender ks R rnd (Auth sk pk) s = Sender_SetupAuth ks R rnd sk s"
| "setup_sender ks R rnd (AuthPSK sk pk p pid) s = Sender_SetupAuthPSK ks R rnd sk p pid s"

fun setup_receiver ::
  "keySchedule \<Rightarrow> registry \<Rightarrow> bytes \<Rightarrow> mode_params \<Rightarrow> Receiver
     \<Rightarrow> Receiver \<times> (error + openCtx)" where
  "setup_receiver ks R e Base r = Receiver_Setup ks R e r"
| "setup_receiver ks R e (PSK p pid) r = Receiver_SetupPSK ks R e p pid r"
| "setup_receiver ks R e (Auth sk pk) r = Receiver_SetupAuth ks R e pk r"
| "setup_receiver ks R e (AuthPSK sk pk p pid) r = Receiver_SetupAuthPSK ks R e p pid pk r"

text \<open>The KEM operation that belongs to a mode, on each side.\<close>

fun kem_encap ::
  "AuthScheme \<Rightarrow> mode_params \<Rightarrow> bytes \<Rightarrow> PublicKey \<Rightarrow> error + (bytes \<times> bytes)" where
  "kem_encap k Base rnd pR = Encapsulate k rnd pR"
| "kem_encap k (PSK p pid) rnd pR = Encapsulate k rnd pR"
| "kem_encap k (Auth sk pk) rnd pR = AuthEncapsulate k rnd pR sk"
| "kem_encap k (AuthPSK sk pk p pid) rnd pR = AuthEncapsulate k rnd pR sk"

fun kem_decap :: "AuthScheme \<Rightarrow> mode_params \<Rightarrow> PrivateKey \<Rightarrow> bytes \<Rightarrow> error + bytes" where
  "kem_decap k Base sR e = Decapsulate k sR e"
| "kem_decap k (PSK p pid) sR e = Decapsulate k sR e"
| "kem_decap k (Auth sk pk) sR e = AuthDecapsulate k sR e pk"
| "kem_decap k (AuthPSK sk pk p pid) sR e = AuthDecapsulate k sR e pk"

text \<open>The loop of the test's \<^verbatim>\<open>checkEncryptions\<close>: each pair of a plaintext and its
  associated data is sealed, and the ciphertext is opened with the same associated
  data. The results of both calls are recorded for every message.\<close>

fun exchange ::
  "registry \<Rightarrow> sealCtx \<Rightarrow> openCtx \<Rightarrow> (bytes \<times> bytes) list
     \<Rightarrow> ((bytes \<times> error option) \<times> (bytes \<times> error option)) list" where
  "exchange R se ope [] = []"
| "exchange R se ope (m # ms) =
     (let (rs, se') = Seal R se (fst m) (snd m);
          (ro, ope') = Open R ope (fst rs) (snd m)
      in (rs, ro) # exchange R se' ope' ms)"

text \<open>A run of \<open>Seal\<close> calls on one context, recording what each returns.\<close>

fun seal_all :: "registry \<Rightarrow> sealCtx \<Rightarrow> (bytes \<times> bytes) list \<Rightarrow> (bytes \<times> error option) list" where
  "seal_all R se [] = []"
| "seal_all R se (m # ms) =
     (let (rs, se') = Seal R se (fst m) (snd m) in rs # seal_all R se' ms)"

subsection \<open>A small instance of the collaborators\<close>

text \<open>A registry with one suite, used to evaluate the definitions at concrete inputs.
  The KEM's key pair is a byte string and itself, its shared secret the key followed
  by the randomness, and it fails on a nil key; the KDF and the AEAD mix their
  inputs with a checksum and have the lengths of HKDF-SHA256 and AES-128-GCM.\<close>

definition tinyKem :: AuthScheme where
  "tinyKem =
     \<lparr>Encapsulate = (\<lambda>rnd pk. case pk of None \<Rightarrow> Inl KemFailure | Some b \<Rightarrow> Inr (rnd, b @ rnd)),
      AuthEncapsulate = (\<lambda>rnd pk sk. case pk of None \<Rightarrow> Inl KemFailure
         | Some b \<Rightarrow> (case sk of None \<Rightarrow> Inl KemFailure | Some a \<Rightarrow> Inr (rnd, b @ a @ rnd))),
      Decapsulate = (\<lambda>sk e. case sk of None \<Rightarrow> Inl KemFailure | Some b \<Rightarrow> Inr (b @ e)),
      AuthDecapsulate = (\<lambda>sk e pk. case sk of None \<Rightarrow> Inl KemFailure
         | Some b \<Rightarrow> (case pk of None \<Rightarrow> Inl KemFailure | Some a \<Rightarrow> Inr (b @ a @ e)))\<rparr>"

definition tinyKdf :: KDF where
  "tinyKdf =
     \<lparr>Nh = 32,
      Extract = (\<lambda>salt ikm. replicate 32 (sum_list (salt @ ikm))),
      Expand = (\<lambda>prk nfo L. replicate L (sum_list (prk @ nfo)))\<rparr>"

definition tinyAead :: AEAD where
  "tinyAead =
     \<lparr>Nk = 16, Nn = 12, Nt = 16,
      aeadSeal = (\<lambda>k n pt aad. pt @ replicate 16 (sum_list (k @ n @ aad @ pt))),
      aeadOpen = (\<lambda>k n ct aad.
         let pt = take (length ct - 16) ct
         in if 16 \<le> length ct \<and> drop (length ct - 16) ct = replicate 16 (sum_list (k @ n @ aad @ pt))
            then Some pt else None)\<rparr>"

definition tinyRegistry :: registry where
  "tinyRegistry =
     \<lparr>isValidKem = (\<lambda>i. i = 0x20), isValidKdf = (\<lambda>i. i = 1), isValidAead = (\<lambda>i. i = 1),
      Scheme = (\<lambda>i. tinyKem), kdfOf = (\<lambda>i. tinyKdf), aeadOf = (\<lambda>i. tinyAead)\<rparr>"

definition tinySuite :: Suite where
  "tinySuite = \<lparr>KemID = 0x20, KdfID = 1, AeadID = 1\<rparr>"

definition tinySender :: Sender where
  "tinySender = \<lparr>Suite = tinySuite, modeID = 0, skS = None, pkS = None, psk = [], pskID = [],
                  info = [], pkR = Some [5]\<rparr>"

definition tinyReceiver :: Receiver where
  "tinyReceiver = \<lparr>Suite = tinySuite, modeID = 0, skS = None, pkS = None, psk = [], pskID = [],
                  info = [], skR = Some [5], enc = []\<rparr>"

definition tinyCtx :: encdecCtx where
  "tinyCtx = \<lparr>suite = tinySuite, key = replicate 16 1, baseNonce = replicate 12 2,
               exporterSecret = replicate 32 3, seq = 0\<rparr>"

section \<open>Properties\<close>

lemmas mode_defs = modeBase_def modePSK_def modeAuth_def modeAuthPSK_def
lemmas build_defs = buildBase_def buildAuth_def buildPSK_def buildAuthPSK_def
lemmas Sender_defs = Sender_Setup_def Sender_SetupAuth_def Sender_SetupPSK_def
  Sender_SetupAuthPSK_def Sender_allSetup_def build_defs
lemmas Receiver_defs = Receiver_Setup_def Receiver_SetupAuth_def Receiver_SetupPSK_def
  Receiver_SetupAuthPSK_def Receiver_allSetup_def
lemmas setup_defs = Sender_defs Receiver_defs mode_defs Let_def
lemmas tiny_defs = tinyKem_def tinyKdf_def tinyAead_def tinyRegistry_def tinySuite_def
  tinySender_def tinyReceiver_def tinyCtx_def

text \<open>The key schedule is called on the embedded \<^verbatim>\<open>state\<close> of the object.\<close>

lemma truncate_fields [simp]:
  "Suite (state.truncate s) = Suite s"
  "modeID (state.truncate s) = modeID s"
  "skS (state.truncate s) = skS s"
  "pkS (state.truncate s) = pkS s"
  "psk (state.truncate s) = psk s"
  "pskID (state.truncate s) = pskID s"
  "info (state.truncate s) = info s"
  by (simp_all add: state.truncate_def)

subsection \<open>Construction\<close>

text \<open>
  C7. \<^verbatim>\<open>NewSender\<close> and \<^verbatim>\<open>NewReceiver\<close> fail with the invalid-suite error for every
  suite that contains an unknown KEM, KDF or AEAD identifier, and for every valid
  suite they return a fresh object: the suite, the info and the key as given, mode
  0, and every mode parameter empty.
\<close>

theorem new_validates_suite:
  "NewSender R su pk nfo =
     (if isValidKem R (KemID su) \<and> isValidKdf R (KdfID su) \<and> isValidAead R (AeadID su)
      then Inr \<lparr>Suite = su, modeID = 0, skS = None, pkS = None, psk = [], pskID = [],
                info = nfo, pkR = pk\<rparr>
      else Inl InvalidSuite) \<and>
   NewReceiver R su sk nfo =
     (if isValidKem R (KemID su) \<and> isValidKdf R (KdfID su) \<and> isValidAead R (AeadID su)
      then Inr \<lparr>Suite = su, modeID = 0, skS = None, pkS = None, psk = [], pskID = [],
                info = nfo, skR = sk, enc = []\<rparr>
      else Inl InvalidSuite)"
  by (simp add: NewSender_def NewReceiver_def isValid_def)

theorem new_validates_suite_witness:
  "NewSender tinyRegistry tinySuite (Some [5]) [] = Inr tinySender \<and>
   NewReceiver tinyRegistry tinySuite (Some [5]) [] = Inr tinyReceiver \<and>
   NewSender tinyRegistry (tinySuite\<lparr>KdfID := 9\<rparr>) (Some [5]) [] = Inl InvalidSuite \<and>
   NewReceiver tinyRegistry (tinySuite\<lparr>AeadID := 0\<rparr>) (Some [5]) [] = Inl InvalidSuite"
  using new_validates_suite [of tinyRegistry tinySuite "Some [5]" "[]" "Some [5]"]
    new_validates_suite [of tinyRegistry "tinySuite\<lparr>KdfID := 9\<rparr>" "Some [5]" "[]" "Some [5]"]
    new_validates_suite [of tinyRegistry "tinySuite\<lparr>AeadID := 0\<rparr>" "Some [5]" "[]" "Some [5]"]
  by (simp add: tiny_defs)

text \<open>
  C10. Construction validates the suite and nothing else: for every valid suite,
  every key (the nil key included) and every info, \<^verbatim>\<open>NewSender\<close> and
  \<^verbatim>\<open>NewReceiver\<close> succeed and store the key as it is, and a KEM that rejects the
  stored key makes the later \<^verbatim>\<open>Setup\<close> call fail with the KEM's error.
\<close>

theorem new_accepts_any_key:
  assumes "isValid R su"
  shows "NewSender R su pk nfo =
           Inr \<lparr>Suite = su, modeID = 0, skS = None, pkS = None, psk = [], pskID = [],
                info = nfo, pkR = pk\<rparr> \<and>
         NewReceiver R su sk nfo =
           Inr \<lparr>Suite = su, modeID = 0, skS = None, pkS = None, psk = [], pskID = [],
                info = nfo, skR = sk, enc = []\<rparr> \<and>
         (\<forall>s ks rnd err. NewSender R su pk nfo = Inr s \<and>
              Encapsulate (Scheme R (KemID su)) rnd pk = Inl err
            \<longrightarrow> snd (Sender_Setup ks R rnd s) = Inl err) \<and>
         (\<forall>r ks e err. NewReceiver R su sk nfo = Inr r \<and>
              Decapsulate (Scheme R (KemID su)) sk e = Inl err
            \<longrightarrow> snd (Receiver_Setup ks R e r) = Inl err)"
  using assms by (auto simp add: NewSender_def NewReceiver_def setup_defs)

theorem new_accepts_any_key_witness:
  "isValid tinyRegistry tinySuite \<and>
   NewSender tinyRegistry tinySuite None [] = Inr (tinySender\<lparr>pkR := None\<rparr>) \<and>
   NewReceiver tinyRegistry tinySuite None [] = Inr (tinyReceiver\<lparr>skR := None\<rparr>) \<and>
   snd (Sender_Setup (keySchedule tinyRegistry) tinyRegistry [7] (tinySender\<lparr>pkR := None\<rparr>))
     = Inl KemFailure \<and>
   snd (Receiver_Setup (keySchedule tinyRegistry) tinyRegistry [7] (tinyReceiver\<lparr>skR := None\<rparr>))
     = Inl KemFailure"
proof -
  have v: "isValid tinyRegistry tinySuite"
    by (simp add: isValid_def tiny_defs)
  have e: "Encapsulate (Scheme tinyRegistry (KemID tinySuite)) [7] None = Inl KemFailure"
    by (simp add: tiny_defs)
  have d: "Decapsulate (Scheme tinyRegistry (KemID tinySuite)) None [7] = Inl KemFailure"
    by (simp add: tiny_defs)
  note n = new_accepts_any_key [OF v, of None "[]" None]
  have s: "NewSender tinyRegistry tinySuite None [] = Inr (tinySender\<lparr>pkR := None\<rparr>)"
    using n by (simp add: tiny_defs)
  have r: "NewReceiver tinyRegistry tinySuite None [] = Inr (tinyReceiver\<lparr>skR := None\<rparr>)"
    using n by (simp add: tiny_defs)
  from n s e have "snd (Sender_Setup (keySchedule tinyRegistry) tinyRegistry [7]
      (tinySender\<lparr>pkR := None\<rparr>)) = Inl KemFailure"
    by blast
  moreover from n r d have "snd (Receiver_Setup (keySchedule tinyRegistry) tinyRegistry [7]
      (tinyReceiver\<lparr>skR := None\<rparr>)) = Inl KemFailure"
    by blast
  ultimately show ?thesis
    using v s r by simp
qed

subsection \<open>What a setup call changes\<close>

text \<open>
  C9. Every \<^verbatim>\<open>Setup*\<close> call updates the object in place: it sets the mode (and, on the
  receiver, the encapsulated key) and the parameters it is given, and leaves every
  other field as it was. The private key stored by \<^verbatim>\<open>SetupAuth\<close> is still there
  after a later \<^verbatim>\<open>SetupPSK\<close>, and the pre-shared key and identifier stored by
  \<^verbatim>\<open>SetupPSK\<close> are still there after a later base-mode \<^verbatim>\<open>Setup\<close>.
\<close>

theorem setup_frame:
  "fst (Sender_Setup ks R rnd s) = s\<lparr>modeID := modeBase\<rparr> \<and>
   fst (Sender_SetupAuth ks R rnd sk s) = s\<lparr>modeID := modeAuth, skS := sk\<rparr> \<and>
   fst (Sender_SetupPSK ks R rnd p pid s) = s\<lparr>modeID := modePSK, psk := p, pskID := pid\<rparr> \<and>
   fst (Sender_SetupAuthPSK ks R rnd sk p pid s) =
     s\<lparr>modeID := modeAuthPSK, skS := sk, psk := p, pskID := pid\<rparr> \<and>
   fst (Receiver_Setup ks R e r) = r\<lparr>modeID := modeBase, enc := e\<rparr> \<and>
   fst (Receiver_SetupAuth ks R e pk r) = r\<lparr>modeID := modeAuth, enc := e, pkS := pk\<rparr> \<and>
   fst (Receiver_SetupPSK ks R e p pid r) =
     r\<lparr>modeID := modePSK, enc := e, psk := p, pskID := pid\<rparr> \<and>
   fst (Receiver_SetupAuthPSK ks R e p pid pk r) =
     r\<lparr>modeID := modeAuthPSK, enc := e, psk := p, pskID := pid, pkS := pk\<rparr> \<and>
   skS (fst (Sender_SetupPSK ks R rnd' p pid (fst (Sender_SetupAuth ks R rnd sk s)))) = sk \<and>
   psk (fst (Sender_Setup ks R rnd' (fst (Sender_SetupPSK ks R rnd p pid s)))) = p \<and>
   pskID (fst (Sender_Setup ks R rnd' (fst (Sender_SetupPSK ks R rnd p pid s)))) = pid \<and>
   pkS (fst (Receiver_SetupPSK ks R e' p pid (fst (Receiver_SetupAuth ks R e pk r)))) = pk \<and>
   psk (fst (Receiver_Setup ks R e' (fst (Receiver_SetupPSK ks R e p pid r)))) = p \<and>
   pskID (fst (Receiver_Setup ks R e' (fst (Receiver_SetupPSK ks R e p pid r)))) = pid"
  by (simp add: Sender_Setup_def Sender_SetupAuth_def Sender_SetupPSK_def
      Sender_SetupAuthPSK_def build_defs Receiver_Setup_def Receiver_SetupAuth_def
      Receiver_SetupPSK_def Receiver_SetupAuthPSK_def Let_def)

theorem setup_frame_witness:
  "skS (fst (Sender_SetupPSK (keySchedule tinyRegistry) tinyRegistry [9] [1] [2]
        (fst (Sender_SetupAuth (keySchedule tinyRegistry) tinyRegistry [7] (Some [3])
           tinySender))))
     = Some [3] \<and>
   psk (fst (Sender_Setup (keySchedule tinyRegistry) tinyRegistry [9]
        (fst (Sender_SetupPSK (keySchedule tinyRegistry) tinyRegistry [7] [1] [2] tinySender))))
     = [1]"
  using setup_frame [where ks = "keySchedule tinyRegistry" and R = tinyRegistry and rnd = "[7]"
      and s = tinySender and sk = "Some [3]" and p = "[1]" and pid = "[2]" and rnd' = "[9]"]
  by blast

subsection \<open>The setup protocol\<close>

text \<open>
  C3. The sender's \<^verbatim>\<open>Setup\<close> and \<^verbatim>\<open>SetupPSK\<close> call \<open>Encapsulate(pkR)\<close>, its
  \<^verbatim>\<open>SetupAuth\<close> and \<^verbatim>\<open>SetupAuthPSK\<close> call \<open>AuthEncapsulate(pkR, skS)\<close>; the
  receiver's \<^verbatim>\<open>Setup\<close> and \<^verbatim>\<open>SetupPSK\<close> call \<open>Decapsulate(skR, enc)\<close>, its
  \<^verbatim>\<open>SetupAuth\<close> and \<^verbatim>\<open>SetupAuthPSK\<close> call \<open>AuthDecapsulate(skR, enc, pkS)\<close>. Each
  variant then runs the key schedule on the shared secret, the info and the
  pre-shared key of the object, with the mode set to its own identifier:
  Base is 0, PSK is 1, Auth is 2 and AuthPSK is 3.
\<close>

theorem setup_kem_dispatch:
  "modeBase = 0 \<and> modePSK = 1 \<and> modeAuth = 2 \<and> modeAuthPSK = 3 \<and>
   snd (Sender_Setup ks R rnd s) =
     (case Encapsulate (Scheme R (KemID (Suite s))) rnd (pkR s) of
        Inl err \<Rightarrow> Inl err
      | Inr (e, ss) \<Rightarrow>
          (case ks (state.truncate (s\<lparr>modeID := modeBase\<rparr>)) ss (info s) (psk s) (pskID s) of
             Inl err \<Rightarrow> Inl err
           | Inr ctx \<Rightarrow> Inr (e, sealCtx ctx))) \<and>
   snd (Sender_SetupPSK ks R rnd p pid s) =
     (case Encapsulate (Scheme R (KemID (Suite s))) rnd (pkR s) of
        Inl err \<Rightarrow> Inl err
      | Inr (e, ss) \<Rightarrow>
          (case ks (state.truncate (s\<lparr>modeID := modePSK, psk := p, pskID := pid\<rparr>))
                  ss (info s) p pid of
             Inl err \<Rightarrow> Inl err
           | Inr ctx \<Rightarrow> Inr (e, sealCtx ctx))) \<and>
   snd (Sender_SetupAuth ks R rnd sk s) =
     (case AuthEncapsulate (Scheme R (KemID (Suite s))) rnd (pkR s) sk of
        Inl err \<Rightarrow> Inl err
      | Inr (e, ss) \<Rightarrow>
          (case ks (state.truncate (s\<lparr>modeID := modeAuth, skS := sk\<rparr>))
                  ss (info s) (psk s) (pskID s) of
             Inl err \<Rightarrow> Inl err
           | Inr ctx \<Rightarrow> Inr (e, sealCtx ctx))) \<and>
   snd (Sender_SetupAuthPSK ks R rnd sk p pid s) =
     (case AuthEncapsulate (Scheme R (KemID (Suite s))) rnd (pkR s) sk of
        Inl err \<Rightarrow> Inl err
      | Inr (e, ss) \<Rightarrow>
          (case ks (state.truncate (s\<lparr>modeID := modeAuthPSK, skS := sk, psk := p, pskID := pid\<rparr>))
                  ss (info s) p pid of
             Inl err \<Rightarrow> Inl err
           | Inr ctx \<Rightarrow> Inr (e, sealCtx ctx))) \<and>
   snd (Receiver_Setup ks R e r) =
     (case Decapsulate (Scheme R (KemID (Suite r))) (skR r) e of
        Inl err \<Rightarrow> Inl err
      | Inr ss \<Rightarrow>
          (case ks (state.truncate (r\<lparr>modeID := modeBase, enc := e\<rparr>))
                  ss (info r) (psk r) (pskID r) of
             Inl err \<Rightarrow> Inl err
           | Inr ctx \<Rightarrow> Inr (openCtx ctx))) \<and>
   snd (Receiver_SetupPSK ks R e p pid r) =
     (case Decapsulate (Scheme R (KemID (Suite r))) (skR r) e of
        Inl err \<Rightarrow> Inl err
      | Inr ss \<Rightarrow>
          (case ks (state.truncate (r\<lparr>modeID := modePSK, enc := e, psk := p, pskID := pid\<rparr>))
                  ss (info r) p pid of
             Inl err \<Rightarrow> Inl err
           | Inr ctx \<Rightarrow> Inr (openCtx ctx))) \<and>
   snd (Receiver_SetupAuth ks R e pk r) =
     (case AuthDecapsulate (Scheme R (KemID (Suite r))) (skR r) e pk of
        Inl err \<Rightarrow> Inl err
      | Inr ss \<Rightarrow>
          (case ks (state.truncate (r\<lparr>modeID := modeAuth, enc := e, pkS := pk\<rparr>))
                  ss (info r) (psk r) (pskID r) of
             Inl err \<Rightarrow> Inl err
           | Inr ctx \<Rightarrow> Inr (openCtx ctx))) \<and>
   snd (Receiver_SetupAuthPSK ks R e p pid pk r) =
     (case AuthDecapsulate (Scheme R (KemID (Suite r))) (skR r) e pk of
        Inl err \<Rightarrow> Inl err
      | Inr ss \<Rightarrow>
          (case ks (state.truncate
                     (r\<lparr>modeID := modeAuthPSK, enc := e, psk := p, pskID := pid, pkS := pk\<rparr>))
                  ss (info r) p pid of
             Inl err \<Rightarrow> Inl err
           | Inr ctx \<Rightarrow> Inr (openCtx ctx)))"
  by (simp add: setup_defs split: sum.split prod.split)

theorem setup_kem_dispatch_witness:
  "snd (Sender_Setup (keySchedule tinyRegistry) tinyRegistry [7] tinySender) =
     map_sum id (\<lambda>c. ([7], sealCtx c))
       (keySchedule tinyRegistry (state.truncate (tinySender\<lparr>modeID := 0\<rparr>)) [5, 7] [] [] []) \<and>
   snd (Sender_SetupAuth (keySchedule tinyRegistry) tinyRegistry [7] (Some [3]) tinySender) =
     map_sum id (\<lambda>c. ([7], sealCtx c))
       (keySchedule tinyRegistry (state.truncate (tinySender\<lparr>modeID := 2, skS := Some [3]\<rparr>))
          [5, 3, 7] [] [] []) \<and>
   snd (Receiver_SetupAuthPSK (keySchedule tinyRegistry) tinyRegistry [7] [1] [2] (Some [3])
          tinyReceiver) =
     map_sum id openCtx
       (keySchedule tinyRegistry
          (state.truncate (tinyReceiver\<lparr>modeID := 3, enc := [7], psk := [1], pskID := [2],
             pkS := Some [3]\<rparr>))
          [5, 3, 7] [] [1] [2])"
  using setup_kem_dispatch [where ks = "keySchedule tinyRegistry" and R = tinyRegistry
      and rnd = "[7]" and s = tinySender and sk = "Some [3]" and r = tinyReceiver and e = "[7]"
      and p = "[1]" and pid = "[2]" and pk = "Some [3]"]
  by (simp add: tiny_defs mode_defs split: sum.split)

text \<open>
  C6. When the KEM operation of a setup call fails, the call returns the KEM's
  error and neither an encapsulated key nor a context, whatever the key schedule
  would have returned: the key schedule is not run.
\<close>

theorem kem_failure_aborts_setup:
  "(Encapsulate (Scheme R (KemID (Suite s))) rnd (pkR s) = Inl err \<longrightarrow>
      snd (Sender_Setup ks R rnd s) = Inl err \<and>
      snd (Sender_SetupPSK ks R rnd p pid s) = Inl err) \<and>
   (AuthEncapsulate (Scheme R (KemID (Suite s))) rnd (pkR s) sk = Inl err \<longrightarrow>
      snd (Sender_SetupAuth ks R rnd sk s) = Inl err \<and>
      snd (Sender_SetupAuthPSK ks R rnd sk p pid s) = Inl err) \<and>
   (Decapsulate (Scheme R (KemID (Suite r))) (skR r) e = Inl err \<longrightarrow>
      snd (Receiver_Setup ks R e r) = Inl err \<and>
      snd (Receiver_SetupPSK ks R e p pid r) = Inl err) \<and>
   (AuthDecapsulate (Scheme R (KemID (Suite r))) (skR r) e pk = Inl err \<longrightarrow>
      snd (Receiver_SetupAuth ks R e pk r) = Inl err \<and>
      snd (Receiver_SetupAuthPSK ks R e p pid pk r) = Inl err)"
  by (simp add: setup_defs)

theorem kem_failure_aborts_setup_witness:
  "Encapsulate (Scheme tinyRegistry (KemID (Suite (tinySender\<lparr>pkR := None\<rparr>)))) [7]
       (pkR (tinySender\<lparr>pkR := None\<rparr>)) = Inl KemFailure \<and>
   snd (Sender_SetupPSK (keySchedule tinyRegistry) tinyRegistry [7] [1] [2]
       (tinySender\<lparr>pkR := None\<rparr>)) = Inl KemFailure \<and>
   AuthDecapsulate (Scheme tinyRegistry (KemID (Suite tinyReceiver))) (skR tinyReceiver) [7] None
     = Inl KemFailure \<and>
   snd (Receiver_SetupAuth (keySchedule tinyRegistry) tinyRegistry [7] None tinyReceiver)
     = Inl KemFailure"
proof -
  have e: "Encapsulate (Scheme tinyRegistry (KemID (Suite (tinySender\<lparr>pkR := None\<rparr>)))) [7]
       (pkR (tinySender\<lparr>pkR := None\<rparr>)) = Inl KemFailure"
    by (simp add: tiny_defs)
  have d: "AuthDecapsulate (Scheme tinyRegistry (KemID (Suite tinyReceiver))) (skR tinyReceiver)
       [7] None = Inl KemFailure"
    by (simp add: tiny_defs)
  from e d show ?thesis
    using kem_failure_aborts_setup [where ks = "keySchedule tinyRegistry" and R = tinyRegistry
      and rnd = "[7]" and s = "tinySender\<lparr>pkR := None\<rparr>" and err = KemFailure and p = "[1]"
      and pid = "[2]" and r = tinyReceiver and e = "[7]" and pk = None]
    by blast
qed

text \<open>
  C8, as amended. A sender or receiver keeps no record of having been set up: a
  \<^verbatim>\<open>Setup*\<close> call does not consume the object, and the same call made again on
  the object that the first call left behind returns what it returns on the
  original object (for the same KEM randomness, or the same encapsulated key), so
  it yields another context whenever the first call could.
\<close>

theorem setup_repeatable:
  "Sender_Setup ks R rnd (fst (Sender_Setup ks R rnd0 s)) = Sender_Setup ks R rnd s \<and>
   Sender_SetupPSK ks R rnd p pid (fst (Sender_SetupPSK ks R rnd0 p pid s)) =
     Sender_SetupPSK ks R rnd p pid s \<and>
   Sender_SetupAuth ks R rnd sk (fst (Sender_SetupAuth ks R rnd0 sk s)) =
     Sender_SetupAuth ks R rnd sk s \<and>
   Sender_SetupAuthPSK ks R rnd sk p pid (fst (Sender_SetupAuthPSK ks R rnd0 sk p pid s)) =
     Sender_SetupAuthPSK ks R rnd sk p pid s \<and>
   Receiver_Setup ks R e (fst (Receiver_Setup ks R e0 r)) = Receiver_Setup ks R e r \<and>
   Receiver_SetupPSK ks R e p pid (fst (Receiver_SetupPSK ks R e0 p pid r)) =
     Receiver_SetupPSK ks R e p pid r \<and>
   Receiver_SetupAuth ks R e pk (fst (Receiver_SetupAuth ks R e0 pk r)) =
     Receiver_SetupAuth ks R e pk r \<and>
   Receiver_SetupAuthPSK ks R e p pid pk (fst (Receiver_SetupAuthPSK ks R e0 p pid pk r)) =
     Receiver_SetupAuthPSK ks R e p pid pk r"
  by (simp add: setup_defs)

theorem setup_repeatable_witness:
  "Sender_Setup (keySchedule tinyRegistry) tinyRegistry [9]
     (fst (Sender_Setup (keySchedule tinyRegistry) tinyRegistry [7] tinySender)) =
   Sender_Setup (keySchedule tinyRegistry) tinyRegistry [9] tinySender \<and>
   Receiver_SetupPSK (keySchedule tinyRegistry) tinyRegistry [9] [1] [2]
     (fst (Receiver_SetupPSK (keySchedule tinyRegistry) tinyRegistry [7] [1] [2] tinyReceiver)) =
   Receiver_SetupPSK (keySchedule tinyRegistry) tinyRegistry [9] [1] [2] tinyReceiver"
  using setup_repeatable [where ks = "keySchedule tinyRegistry" and R = tinyRegistry
      and rnd = "[9]" and ?rnd0.0 = "[7]" and s = tinySender and e = "[9]" and ?e0.0 = "[7]"
      and p = "[1]" and pid = "[2]" and r = tinyReceiver]
  by blast

text \<open>
  C8, as stated, fails: after a successful \<^verbatim>\<open>Setup\<close>, a second \<^verbatim>\<open>Setup\<close> on the
  same sender succeeds as well, and the sealer it returns seals a message.
\<close>

theorem second_setup_counterexample:
  "map_sum id fst (snd (Sender_Setup (keySchedule tinyRegistry) tinyRegistry [7] tinySender))
     = Inr [7] \<and>
   map_sum id fst (snd (Sender_Setup (keySchedule tinyRegistry) tinyRegistry [9]
       (fst (Sender_Setup (keySchedule tinyRegistry) tinyRegistry [7] tinySender))))
     = Inr [9] \<and>
   snd (fst (Seal tinyRegistry
       (snd (projr (snd (Sender_Setup (keySchedule tinyRegistry) tinyRegistry [9]
          (fst (Sender_Setup (keySchedule tinyRegistry) tinyRegistry [7] tinySender))))))
       [1, 2] [])) = None"
  by (simp add: setup_defs tiny_defs keySchedule_def verifyPSKInputs_def increment_seq_def)

subsection \<open>Sealing and opening in step\<close>

text \<open>The key schedule reads the suite and the mode of the state and nothing else,
  and returns a context for that suite with \<open>seq\<close> at 0.\<close>

lemma keySchedule_reads:
  "Suite st = Suite st' \<Longrightarrow> modeID st = modeID st' \<Longrightarrow>
   keySchedule R st ss nfo p pid = keySchedule R st' ss nfo p pid"
  by (simp add: keySchedule_def)

lemma keySchedule_truncate:
  "keySchedule R (state.truncate x) ss nfo p pid =
   keySchedule R \<lparr>Suite = Suite x, modeID = modeID x, skS = None, pkS = None, psk = [],
     pskID = [], info = []\<rparr> ss nfo p pid"
  by (rule keySchedule_reads) simp_all

lemma keySchedule_suite:
  "keySchedule R st ss nfo p pid = Inr c \<Longrightarrow> suite c = Suite st \<and> seq c = 0"
  by (auto simp add: keySchedule_def Let_def split: if_splits)

lemma Seal_step:
  "Seal R (sealCtx c) pt aad =
     ((aeadSeal (aeadOf R (AeadID (suite c))) (key c)
         (compute_nonce (aeadOf R (AeadID (suite c))) c) pt aad,
       if seq c = message_limit R c - 1 then Some MessageLimitReached else None),
      sealCtx (if seq c = message_limit R c - 1 then c else c\<lparr>seq := seq c + 1\<rparr>))"
  by (simp add: Let_def increment_seq_def message_limit_def)

lemma Open_step:
  assumes "aeadOpen (aeadOf R (AeadID (suite c))) (key c)
             (compute_nonce (aeadOf R (AeadID (suite c))) c) ct aad = Some pt"
  shows "Open R (openCtx c) ct aad =
     ((pt, if seq c = message_limit R c - 1 then Some MessageLimitReached else None),
      openCtx (if seq c = message_limit R c - 1 then c else c\<lparr>seq := seq c + 1\<rparr>))"
  using assms by (simp add: Let_def increment_seq_def message_limit_def)

lemma message_limit_seq [simp]: "message_limit R (c\<lparr>seq := n\<rparr>) = message_limit R c"
  by (simp add: message_limit_def)

lemma exchange_plaintexts:
  assumes "\<And>k n pt aad. aeadOpen (aeadOf R (AeadID (suite c))) k n
              (aeadSeal (aeadOf R (AeadID (suite c))) k n pt aad) aad = Some pt"
  shows "map (fst \<circ> snd) (exchange R (sealCtx c) (openCtx c) ms) = map fst ms"
  using assms
proof (induction ms arbitrary: c)
  case Nil
  then show ?case by simp
next
  case (Cons m ms)
  have ih: "map (fst \<circ> snd) (exchange R (sealCtx c') (openCtx c') ms) = map fst ms"
    if "suite c' = suite c" for c'
    by (rule Cons.IH) (simp only: that Cons.prems)
  show ?case
    using ih by (simp add: Seal_step Open_step Cons.prems comp_def del: Seal.simps Open.simps)
qed

lemma exchange_no_errors:
  assumes "\<And>k n pt aad. aeadOpen (aeadOf R (AeadID (suite c))) k n
              (aeadSeal (aeadOf R (AeadID (suite c))) k n pt aad) aad = Some pt"
    and "seq c + length ms < message_limit R c"
  shows "\<forall>x\<in>set (exchange R (sealCtx c) (openCtx c) ms). snd (fst x) = None \<and> snd (snd x) = None"
  using assms
proof (induction ms arbitrary: c)
  case Nil
  then show ?case by simp
next
  case (Cons m ms)
  let ?c' = "c\<lparr>seq := seq c + 1\<rparr>"
  have ne: "seq c \<noteq> message_limit R c - 1"
    using Cons.prems(2) by simp
  have ih: "\<forall>x\<in>set (exchange R (sealCtx ?c') (openCtx ?c') ms).
      snd (fst x) = None \<and> snd (snd x) = None"
  proof (rule Cons.IH)
    show "\<And>k n pt aad. aeadOpen (aeadOf R (AeadID (suite ?c'))) k n
              (aeadSeal (aeadOf R (AeadID (suite ?c'))) k n pt aad) aad = Some pt"
      using Cons.prems(1) by simp
    show "seq ?c' + length ms < message_limit R ?c'"
      using Cons.prems(2) by simp
  qed
  show ?case
    using ih ne by (simp add: Seal_step Open_step Cons.prems(1) del: Seal.simps Open.simps)
qed


lemma receiver_mirrors_sender:
  assumes kem: "\<And>e ss. kem_encap (Scheme R (KemID su)) m rnd pR = Inr (e, ss)
                 \<Longrightarrow> kem_decap (Scheme R (KemID su)) m sR e = Inr ss"
    and snd: "NewSender R su pR nfo = Inr s"
    and rcv: "NewReceiver R su sR nfo = Inr r"
    and sent: "snd (setup_sender (keySchedule R) R rnd m s) = Inr (e, sealCtx c)"
  shows "snd (setup_receiver (keySchedule R) R e m r) = Inr (openCtx c) \<and> suite c = su \<and> seq c = 0"
proof -
  let ?K = "Scheme R (KemID su)"
  from snd have s: "s = \<lparr>Suite = su, modeID = 0, skS = None, pkS = None, psk = [], pskID = [],
      info = nfo, pkR = pR\<rparr>"
    by (simp add: NewSender_def split: if_splits)
  from rcv have r: "r = \<lparr>Suite = su, modeID = 0, skS = None, pkS = None, psk = [], pskID = [],
      info = nfo, skR = sR, enc = []\<rparr>"
    by (simp add: NewReceiver_def split: if_splits)
  show ?thesis
  proof (cases m)
    case Base
    from sent obtain ss where
      en: "Encapsulate ?K rnd pR = Inr (e, ss)" and
      ks: "keySchedule R (state.truncate (s\<lparr>modeID := modeBase\<rparr>)) ss nfo [] [] = Inr c"
      by (auto simp add: Base s setup_defs keySchedule_truncate split: sum.splits prod.splits)
    from kem [of e ss] en have de: "Decapsulate ?K sR e = Inr ss"
      by (simp add: Base)
    have "keySchedule R (state.truncate (r\<lparr>modeID := modeBase, enc := e\<rparr>)) ss nfo [] [] = Inr c"
      using ks by (simp add: s r keySchedule_truncate)
    with de keySchedule_suite [OF ks] show ?thesis
      by (simp add: Base r s setup_defs)
  next
    case (PSK p pid)
    from sent obtain ss where
      en: "Encapsulate ?K rnd pR = Inr (e, ss)" and
      ks: "keySchedule R (state.truncate (s\<lparr>modeID := modePSK\<rparr>)) ss nfo p pid = Inr c"
      by (auto simp add: PSK s setup_defs keySchedule_truncate split: sum.splits prod.splits)
    from kem [of e ss] en have de: "Decapsulate ?K sR e = Inr ss"
      by (simp add: PSK)
    have "keySchedule R (state.truncate (r\<lparr>modeID := modePSK, enc := e, psk := p, pskID := pid\<rparr>))
        ss nfo p pid = Inr c"
      using ks by (simp add: s r keySchedule_truncate)
    with de keySchedule_suite [OF ks] show ?thesis
      by (simp add: PSK r s setup_defs)
  next
    case (Auth sk pk)
    from sent obtain ss where
      en: "AuthEncapsulate ?K rnd pR sk = Inr (e, ss)" and
      ks: "keySchedule R (state.truncate (s\<lparr>modeID := modeAuth\<rparr>)) ss nfo [] [] = Inr c"
      by (auto simp add: Auth s setup_defs keySchedule_truncate split: sum.splits prod.splits)
    from kem [of e ss] en have de: "AuthDecapsulate ?K sR e pk = Inr ss"
      by (simp add: Auth)
    have "keySchedule R (state.truncate (r\<lparr>modeID := modeAuth, enc := e, pkS := pk\<rparr>))
        ss nfo [] [] = Inr c"
      using ks by (simp add: s r keySchedule_truncate)
    with de keySchedule_suite [OF ks] show ?thesis
      by (simp add: Auth r s setup_defs)
  next
    case (AuthPSK sk pk p pid)
    from sent obtain ss where
      en: "AuthEncapsulate ?K rnd pR sk = Inr (e, ss)" and
      ks: "keySchedule R (state.truncate (s\<lparr>modeID := modeAuthPSK\<rparr>)) ss nfo p pid = Inr c"
      by (auto simp add: AuthPSK s setup_defs keySchedule_truncate split: sum.splits prod.splits)
    from kem [of e ss] en have de: "AuthDecapsulate ?K sR e pk = Inr ss"
      by (simp add: AuthPSK)
    have "keySchedule R (state.truncate
        (r\<lparr>modeID := modeAuthPSK, enc := e, psk := p, pskID := pid, pkS := pk\<rparr>))
        ss nfo p pid = Inr c"
      using ks by (simp add: s r keySchedule_truncate)
    with de keySchedule_suite [OF ks] show ?thesis
      by (simp add: AuthPSK r s setup_defs)
  qed
qed

text \<open>
  C1. For every suite that construction accepts, every mode and every sequence of
  messages with their associated data: when the sender's setup has returned an
  encapsulated key and a sealer, the matching setup of a receiver built for the
  same suite, info and mode parameters, on that encapsulated key, returns an
  opener, and the i-th \<open>Open\<close> of the i-th \<open>Seal\<close> output with the same associated
  data returns the i-th plaintext, both sides working in order. No call reports an
  error while the number of messages is below \<open>2^(8\<cdot>Nn)\<close>. The collaborators are
  assumed correct: the receiver's key decapsulates what was encapsulated to it,
  and the AEAD opens what it sealed under the same key, nonce and associated data.
\<close>

theorem round_trip:
  assumes kem: "\<And>e ss. kem_encap (Scheme R (KemID su)) m rnd pR = Inr (e, ss)
                 \<Longrightarrow> kem_decap (Scheme R (KemID su)) m sR e = Inr ss"
    and aead: "\<And>k n pt aad. aeadOpen (aeadOf R (AeadID su)) k n
                 (aeadSeal (aeadOf R (AeadID su)) k n pt aad) aad = Some pt"
    and snd: "NewSender R su pR nfo = Inr s"
    and rcv: "NewReceiver R su sR nfo = Inr r"
    and sent: "snd (setup_sender (keySchedule R) R rnd m s) = Inr (e, se)"
  shows "\<exists>ope. snd (setup_receiver (keySchedule R) R e m r) = Inr ope \<and>
           (\<forall>ms. map (fst \<circ> snd) (exchange R se ope ms) = map fst ms) \<and>
           (\<forall>ms. length ms < 2 ^ (8 * Nn (aeadOf R (AeadID su))) \<longrightarrow>
              (\<forall>x\<in>set (exchange R se ope ms). snd (fst x) = None \<and> snd (snd x) = None))"
proof -
  obtain c where se: "se = sealCtx c"
    by (cases se) simp
  from receiver_mirrors_sender [OF kem snd rcv sent [unfolded se]]
  have rc: "snd (setup_receiver (keySchedule R) R e m r) = Inr (openCtx c)"
    and su: "suite c = su" and sq: "seq c = 0"
    by simp_all
  have a: "\<And>k n pt aad. aeadOpen (aeadOf R (AeadID (suite c))) k n
              (aeadSeal (aeadOf R (AeadID (suite c))) k n pt aad) aad = Some pt"
    by (simp add: su aead)
  have p: "map (fst \<circ> snd) (exchange R se (openCtx c) ms) = map fst ms" for ms
    unfolding se by (rule exchange_plaintexts) (rule a)
  have n: "\<forall>x\<in>set (exchange R se (openCtx c) ms). snd (fst x) = None \<and> snd (snd x) = None"
    if "length ms < 2 ^ (8 * Nn (aeadOf R (AeadID su)))" for ms
    unfolding se
  proof (rule exchange_no_errors)
    show "seq c + length ms < message_limit R c"
      using that by (simp add: sq su message_limit_def)
  qed (rule a)
  from rc p n show ?thesis
    by blast
qed

theorem round_trip_witness:
  "\<exists>ope. snd (setup_receiver (keySchedule tinyRegistry) tinyRegistry [7]
             (AuthPSK (Some [3]) (Some [3]) [1] [2]) tinyReceiver) = Inr ope \<and>
     map (fst \<circ> snd)
       (exchange tinyRegistry
          (snd (projr (snd (setup_sender (keySchedule tinyRegistry) tinyRegistry [7]
             (AuthPSK (Some [3]) (Some [3]) [1] [2]) tinySender))))
          ope [([10, 11], [12]), ([], []), ([13], [])])
       = [[10, 11], [], [13]]"
proof -
  let ?m = "AuthPSK (Some [3]) (Some [3]) [1] [2]"
  let ?se = "snd (projr (snd (setup_sender (keySchedule tinyRegistry) tinyRegistry [7] ?m
     tinySender)))"
  have kem: "\<And>e ss. kem_encap (Scheme tinyRegistry (KemID tinySuite)) ?m [7] (Some [5])
        = Inr (e, ss)
      \<Longrightarrow> kem_decap (Scheme tinyRegistry (KemID tinySuite)) ?m (Some [5]) e = Inr ss"
    by (auto simp add: tiny_defs)
  have aead: "\<And>k n pt aad. aeadOpen (aeadOf tinyRegistry (AeadID tinySuite)) k n
        (aeadSeal (aeadOf tinyRegistry (AeadID tinySuite)) k n pt aad) aad = Some pt"
    by (simp add: tiny_defs Let_def)
  have ns: "NewSender tinyRegistry tinySuite (Some [5]) [] = Inr tinySender"
    by (simp add: NewSender_def isValid_def tiny_defs)
  have nr: "NewReceiver tinyRegistry tinySuite (Some [5]) [] = Inr tinyReceiver"
    by (simp add: NewReceiver_def isValid_def tiny_defs)
  have sent: "snd (setup_sender (keySchedule tinyRegistry) tinyRegistry [7] ?m tinySender)
      = Inr ([7], ?se)"
    by (simp add: setup_defs tiny_defs keySchedule_def verifyPSKInputs_def)
  let ?ms = "[([10, 11], [12]), ([], []), ([13], [])] :: (bytes \<times> bytes) list"
  from round_trip [OF kem aead ns nr sent] obtain ope where
    a: "snd (setup_receiver (keySchedule tinyRegistry) tinyRegistry [7] ?m tinyReceiver) = Inr ope \<and>
      (\<forall>ms. map (fst \<circ> snd) (exchange tinyRegistry ?se ope ms) = map fst ms) \<and>
      (\<forall>ms. length ms < 2 ^ (8 * Nn (aeadOf tinyRegistry (AeadID tinySuite))) \<longrightarrow>
         (\<forall>x\<in>set (exchange tinyRegistry ?se ope ms). snd (fst x) = None \<and> snd (snd x) = None))"
    ..
  from a have r: "snd (setup_receiver (keySchedule tinyRegistry) tinyRegistry [7] ?m tinyReceiver)
      = Inr ope"
    by (rule conjunct1)
  from a have "\<forall>ms. map (fst \<circ> snd) (exchange tinyRegistry ?se ope ms) = map fst ms"
    by (rule conjunct2 [THEN conjunct1])
  then have "map (fst \<circ> snd) (exchange tinyRegistry ?se ope ?ms) = map fst ?ms"
    by (rule spec)
  also have "map fst ?ms = [[10, 11], [], [13]]"
    by simp
  finally have x: "map (fst \<circ> snd) (exchange tinyRegistry ?se ope ?ms) = [[10, 11], [], [13]]" .
  from r x have "snd (setup_receiver (keySchedule tinyRegistry) tinyRegistry [7] ?m tinyReceiver)
      = Inr ope \<and>
    map (fst \<circ> snd) (exchange tinyRegistry ?se ope ?ms) = [[10, 11], [], [13]]"
    by (rule conjI)
  then show ?thesis
    by (rule exI)
qed

end
